theory Spec2Isabelle
  imports Main "HOL-Library.Word"
begin

unbundle bit_operations_syntax

section \<open>Data model of \<open>src/VulkanEngine/main.cpp\<close>\<close>

text \<open>
  The class \<open>Framework\<close> of \<open>main.cpp\<close> talks to two external libraries (GLFW and the
  Vulkan loader). Everything the driver reports is an input of the model; everything the class
  decides from those reports is a function translated from the source.
\<close>

type_synonym uint32_t = "32 word"

definition UINT32_MAX :: uint32_t where
  "UINT32_MAX = 0xFFFFFFFF"

subsection \<open>Enumerations of the Vulkan header\<close>

text \<open>
  Modelled from the spec: the enumerations \<open>VkPresentModeKHR\<close>, \<open>VkSharingMode\<close>, \<open>VkFormat\<close>,
  \<open>VkColorSpaceKHR\<close> and \<open>VkResult\<close> are declared in the Vulkan header, which is not part of the
  repository. Each is a datatype whose constructors are the enumerators the code names (the
  spec's "triple-buffering" mode is \<open>VK_PRESENT_MODE_MAILBOX_KHR\<close>, its "first-in-first-out" mode
  \<open>VK_PRESENT_MODE_FIFO_KHR\<close>, its "8-bit BGRA format" \<open>VK_FORMAT_B8G8R8A8_SRGB\<close>, its "standard
  nonlinear color space" \<open>VK_COLOR_SPACE_SRGB_NONLINEAR_KHR\<close>); every other enumerator is kept by
  its number.
\<close>

datatype VkPresentModeKHR =
    VK_PRESENT_MODE_IMMEDIATE_KHR
  | VK_PRESENT_MODE_MAILBOX_KHR
  | VK_PRESENT_MODE_FIFO_KHR
  | VK_PRESENT_MODE_FIFO_RELAXED_KHR
  | VK_PRESENT_MODE_OTHER nat

datatype VkSharingMode = VK_SHARING_MODE_EXCLUSIVE | VK_SHARING_MODE_CONCURRENT

datatype VkFormat =
    VK_FORMAT_UNDEFINED
  | VK_FORMAT_R8G8B8A8_SRGB
  | VK_FORMAT_B8G8R8A8_UNORM
  | VK_FORMAT_B8G8R8A8_SRGB
  | VK_FORMAT_OTHER nat

datatype VkColorSpaceKHR =
    VK_COLOR_SPACE_SRGB_NONLINEAR_KHR
  | VK_COLOR_SPACE_OTHER nat

datatype VkResult = VK_SUCCESS | VK_ERROR int

subsection \<open>Structures\<close>

record VkExtent2D =
  width :: uint32_t
  height :: uint32_t

record VkSurfaceCapabilitiesKHR =
  minImageCount :: uint32_t
  maxImageCount :: uint32_t
  currentExtent :: VkExtent2D
  minImageExtent :: VkExtent2D
  maxImageExtent :: VkExtent2D
  currentTransform :: uint32_t

record VkSurfaceFormatKHR =
  format :: VkFormat
  colorSpace :: VkColorSpaceKHR

text \<open>\<open>struct SwapChainSupportDetails\<close> (lines 73-78).\<close>

record SwapChainSupportDetails =
  surfaceCapabilities :: VkSurfaceCapabilitiesKHR
  surfaceFormats :: "VkSurfaceFormatKHR list"
  presentationModes :: "VkPresentModeKHR list"

subsection \<open>Errors\<close>

text \<open>
  Every \<open>throw std::runtime_error\<close> of the source is a constructor, named as the spec names the
  failure. \<open>BadOptionalAccess\<close> is the exception of \<open>std::optional::value()\<close> on an absent value,
  \<open>IndexOutOfRange\<close> stands for reading \<open>availableFormats[0]\<close> of an empty vector.
\<close>

datatype error =
    UnsupportedLayer
  | InstanceCreationFailed
  | DiagnosticsSetupFailed
  | SurfaceCreationFailed
  | NoAcceleratorFound
  | NoSuitableAccelerator
  | DeviceCreationFailed
  | SwapchainCreationFailed
  | ImageViewCreationFailed
  | BadOptionalAccess
  | IndexOutOfRange

subsection \<open>Constant members of \<open>Framework\<close> (lines 16-28)\<close>

text \<open>
  \<open>WINDOW_WIDTH\<close>, \<open>WINDOW_HEIGHT\<close>, \<open>validationLayers\<close> and \<open>deviceExtensions\<close> are constant
  members; \<open>enableValidationLayers\<close> is \<open>false\<close> when the program is compiled with \<open>NDEBUG\<close> and
  \<open>true\<close> otherwise. The member functions read them, so the model passes them in a record;
  \<open>Framework ndebug\<close> is the record of the values the source gives them.
\<close>

record Framework_members =
  WINDOW_WIDTH :: int
  WINDOW_HEIGHT :: int
  validationLayers :: "string list"
  deviceExtensions :: "string list"
  enableValidationLayers :: bool

text \<open>
  Modelled from the spec: the macro \<open>VK_KHR_SWAPCHAIN_EXTENSION_NAME\<close> comes from the Vulkan
  header; it is the "single entry: swapchain support" of the required device extension set.
\<close>

definition VK_KHR_SWAPCHAIN_EXTENSION_NAME :: string where
  "VK_KHR_SWAPCHAIN_EXTENSION_NAME = ''VK_KHR_swapchain''"

definition Framework :: "bool \<Rightarrow> Framework_members" where
  "Framework ndebug =
     \<lparr> WINDOW_WIDTH = 800,
       WINDOW_HEIGHT = 600,
       validationLayers = [''VK_LAYER_KHRONOS_validation''],
       deviceExtensions = [VK_KHR_SWAPCHAIN_EXTENSION_NAME],
       enableValidationLayers = (\<not> ndebug) \<rparr>"

section \<open>Swapchain negotiation\<close>

subsection \<open>\<open>chooseSwapSurfaceFormat\<close> (lines 534-547)\<close>

text \<open>
  The loop returns the first element that is the preferred pair. After the loop the source reads
  \<open>availableFormats[0]\<close>, which is outside the vector when the vector is empty.
\<close>

fun chooseSwapSurfaceFormat_loop :: "VkSurfaceFormatKHR list \<Rightarrow> VkSurfaceFormatKHR option" where
  "chooseSwapSurfaceFormat_loop [] = None"
| "chooseSwapSurfaceFormat_loop (availableFormat # rest) =
     (if format availableFormat = VK_FORMAT_B8G8R8A8_SRGB
         \<and> colorSpace availableFormat = VK_COLOR_SPACE_SRGB_NONLINEAR_KHR
      then Some availableFormat
      else chooseSwapSurfaceFormat_loop rest)"

definition chooseSwapSurfaceFormat :: "VkSurfaceFormatKHR list \<Rightarrow> error + VkSurfaceFormatKHR" where
  "chooseSwapSurfaceFormat availableFormats =
     (case chooseSwapSurfaceFormat_loop availableFormats of
        Some availableFormat \<Rightarrow> Inr availableFormat
      | None \<Rightarrow>
          (case availableFormats of
             [] \<Rightarrow> Inl IndexOutOfRange
           | first # _ \<Rightarrow> Inr first))"

subsection \<open>\<open>chooseSwapPresentationMode\<close> (lines 550-560)\<close>

fun chooseSwapPresentationMode :: "VkPresentModeKHR list \<Rightarrow> VkPresentModeKHR" where
  "chooseSwapPresentationMode [] = VK_PRESENT_MODE_FIFO_KHR"
| "chooseSwapPresentationMode (availablePresentationMode # rest) =
     (if availablePresentationMode = VK_PRESENT_MODE_MAILBOX_KHR
      then availablePresentationMode
      else chooseSwapPresentationMode rest)"

subsection \<open>\<open>chooseSwapExtent\<close> (lines 563-577)\<close>

text \<open>
  \<open>finalExtent\<close> is initialised from the two \<open>int\<close> members, converted to \<open>uint32_t\<close>; \<open>std::max\<close>
  and \<open>std::min\<close> compare unsigned 32-bit values, as \<open>max\<close> and \<open>min\<close> on words do.
\<close>

definition chooseSwapExtent :: "Framework_members \<Rightarrow> VkSurfaceCapabilitiesKHR \<Rightarrow> VkExtent2D" where
  "chooseSwapExtent this capabilities =
     (if width (currentExtent capabilities) \<noteq> UINT32_MAX
      then currentExtent capabilities
      else
        (let finalExtent = \<lparr> width = word_of_int (WINDOW_WIDTH this),
                              height = word_of_int (WINDOW_HEIGHT this) \<rparr>;
             finalExtent = finalExtent \<lparr> width :=
               max (width (minImageExtent capabilities))
                   (min (width (maxImageExtent capabilities)) (width finalExtent)) \<rparr>;
             finalExtent = finalExtent \<lparr> height :=
               max (height (minImageExtent capabilities))
                   (min (height (maxImageExtent capabilities)) (height finalExtent)) \<rparr>
         in finalExtent))"

subsection \<open>Image count of \<open>createSwapChain\<close> (lines 482-485)\<close>

text \<open>\<open>imageCount\<close> is a \<open>uint32_t\<close>: the addition wraps at \<open>2 ^ 32\<close>.\<close>

definition requestedImageCount :: "VkSurfaceCapabilitiesKHR \<Rightarrow> uint32_t" where
  "requestedImageCount capabilities =
     (let imageCount = minImageCount capabilities + 1
      in if maxImageCount capabilities > 0 \<and> imageCount > maxImageCount capabilities
         then maxImageCount capabilities
         else imageCount)"

section \<open>Device selection\<close>

subsection \<open>What the driver reports for one physical device\<close>

text \<open>
  A \<open>VkPhysicalDevice\<close> is an opaque handle; the source only ever passes it to driver queries.
  The model identifies a handle with the answers of those queries against the bound surface:
  \<open>vkGetPhysicalDeviceQueueFamilyProperties\<close>, \<open>vkGetPhysicalDeviceSurfaceSupportKHR\<close> (asked per
  family index), \<open>vkEnumerateDeviceExtensionProperties\<close>,
  \<open>vkGetPhysicalDeviceSurfaceCapabilitiesKHR\<close>, \<open>vkGetPhysicalDeviceSurfaceFormatsKHR\<close> and
  \<open>vkGetPhysicalDeviceSurfacePresentModesKHR\<close>. The driver answers the same query the same way
  each time it is asked. The member \<open>physicalDevice\<close> starts as \<open>VK_NULL_HANDLE\<close> (line 43), which
  is \<open>None\<close> of \<open>VkPhysicalDevice option\<close>; enumerated handles are never null.
\<close>

record VkQueueFamilyProperties =
  queueFlags :: uint32_t

record VkExtensionProperties =
  extensionName :: string

record VkLayerProperties =
  layerName :: string

record VkPhysicalDevice =
  queueFamilyProperties :: "VkQueueFamilyProperties list"
  surfaceSupportKHR :: "nat \<Rightarrow> bool"
  extensionProperties :: "VkExtensionProperties list"
  surfaceCapabilitiesKHR :: VkSurfaceCapabilitiesKHR
  surfaceFormatsKHR :: "VkSurfaceFormatKHR list"
  surfacePresentModesKHR :: "VkPresentModeKHR list"

text \<open>
  Modelled from the spec: the flag \<open>VK_QUEUE_GRAPHICS_BIT\<close> comes from the Vulkan header; it is
  the bit of \<open>queueFlags\<close> that says a family is "offering graphics capability" (the lowest bit).
\<close>

definition VK_QUEUE_GRAPHICS_BIT :: uint32_t where
  "VK_QUEUE_GRAPHICS_BIT = 1"

subsection \<open>\<open>struct QueueFamilyIndices\<close> (lines 60-71)\<close>

text \<open>
  The two members are \<open>std::optional<uint32_t>\<close>. The loop counter of \<open>findQueueFamilies\<close> is an
  \<open>int\<close> that starts at 0 and is stored into them; the model keeps family indices as natural
  numbers, which is what both types hold for every list of fewer than \<open>2 ^ 31\<close> families.
\<close>

record QueueFamilyIndices =
  graphicsFamily :: "nat option"
  presentationFamily :: "nat option"

definition IsComplete :: "QueueFamilyIndices \<Rightarrow> bool" where
  "IsComplete indices = (graphicsFamily indices \<noteq> None \<and> presentationFamily indices \<noteq> None)"

subsection \<open>\<open>findQueueFamilies\<close> (lines 333-366)\<close>

text \<open>
  One equation per iteration of the range-for loop, in the order of the body: the graphics test
  stores \<open>i\<close>, then the \<open>break\<close> on completeness, then the presentation query for index \<open>i\<close>
  stores \<open>i\<close>, then \<open>i++\<close>.
\<close>

fun findQueueFamilies_loop ::
  "VkQueueFamilyProperties list \<Rightarrow> (nat \<Rightarrow> bool) \<Rightarrow> nat \<Rightarrow> QueueFamilyIndices \<Rightarrow> QueueFamilyIndices"
where
  "findQueueFamilies_loop [] support i indices = indices"
| "findQueueFamilies_loop (queueFamily # rest) support i indices =
     (let indices =
            (if queueFlags queueFamily AND VK_QUEUE_GRAPHICS_BIT \<noteq> 0
             then indices \<lparr> graphicsFamily := Some i \<rparr>
             else indices)
      in if IsComplete indices then indices
         else
           (let presentationSupport = support i;
                indices =
                  (if presentationSupport
                   then indices \<lparr> presentationFamily := Some i \<rparr>
                   else indices)
            in findQueueFamilies_loop rest support (i + 1) indices))"

definition findQueueFamilies :: "VkPhysicalDevice \<Rightarrow> QueueFamilyIndices" where
  "findQueueFamilies device =
     findQueueFamilies_loop (queueFamilyProperties device) (surfaceSupportKHR device) 0
       \<lparr> graphicsFamily = None, presentationFamily = None \<rparr>"

subsection \<open>\<open>checkDeviceExtensionSupport\<close> (lines 370-386)\<close>

fun checkDeviceExtensionSupport_loop :: "VkExtensionProperties list \<Rightarrow> string set \<Rightarrow> string set" where
  "checkDeviceExtensionSupport_loop [] requiredExtensions = requiredExtensions"
| "checkDeviceExtensionSupport_loop (extension # rest) requiredExtensions =
     checkDeviceExtensionSupport_loop rest (requiredExtensions - {extensionName extension})"

definition checkDeviceExtensionSupport :: "Framework_members \<Rightarrow> VkPhysicalDevice \<Rightarrow> bool" where
  "checkDeviceExtensionSupport this device =
     (let availableExtensions = extensionProperties device;
          requiredExtensions = set (deviceExtensions this)
      in checkDeviceExtensionSupport_loop availableExtensions requiredExtensions = {})"

subsection \<open>\<open>querySwapChainSupport\<close> (lines 441-469)\<close>

definition querySwapChainSupport :: "VkPhysicalDevice \<Rightarrow> SwapChainSupportDetails" where
  "querySwapChainSupport device =
     \<lparr> surfaceCapabilities = surfaceCapabilitiesKHR device,
       surfaceFormats =
         (if length (surfaceFormatsKHR device) \<noteq> 0 then surfaceFormatsKHR device else []),
       presentationModes =
         (if length (surfacePresentModesKHR device) \<noteq> 0 then surfacePresentModesKHR device else []) \<rparr>"

subsection \<open>\<open>isDeviceSuitable\<close> (lines 318-331)\<close>

definition isDeviceSuitable :: "Framework_members \<Rightarrow> VkPhysicalDevice \<Rightarrow> bool" where
  "isDeviceSuitable this device =
     (let indices = findQueueFamilies device;
          supportedExtensions = checkDeviceExtensionSupport this device;
          isSwapChainAdequate =
            (if supportedExtensions
             then (let swapChainSupport = querySwapChainSupport device
                   in surfaceFormats swapChainSupport \<noteq> []
                      \<and> presentationModes swapChainSupport \<noteq> [])
             else False)
      in IsComplete indices \<and> supportedExtensions \<and> isSwapChainAdequate)"

subsection \<open>\<open>selectPhysicalDevice\<close> (lines 289-315)\<close>

text \<open>
  The loop assigns the member \<open>physicalDevice\<close> and breaks at the first suitable device; the
  test after the loop throws when the member is still \<open>VK_NULL_HANDLE\<close>.
\<close>

fun selectPhysicalDevice_loop ::
  "Framework_members \<Rightarrow> VkPhysicalDevice list \<Rightarrow> VkPhysicalDevice option \<Rightarrow> VkPhysicalDevice option"
where
  "selectPhysicalDevice_loop this [] physicalDevice = physicalDevice"
| "selectPhysicalDevice_loop this (device # rest) physicalDevice =
     (if isDeviceSuitable this device then Some device
      else selectPhysicalDevice_loop this rest physicalDevice)"

definition selectPhysicalDevice ::
  "Framework_members \<Rightarrow> VkPhysicalDevice list \<Rightarrow> error + VkPhysicalDevice"
where
  "selectPhysicalDevice this devices =
     (if length devices = 0 then Inl NoAcceleratorFound
      else
        (case selectPhysicalDevice_loop this devices None of
           None \<Rightarrow> Inl NoSuitableAccelerator
         | Some physicalDevice \<Rightarrow> Inr physicalDevice))"

section \<open>Logical device and swapchain requests\<close>

subsection \<open>\<open>createLogicalDevice\<close> (lines 389-439)\<close>

text \<open>
  \<open>uniqueQueueFamilies\<close> is a \<open>std::set<uint32_t>\<close> built from the two unwrapped indices; the loop
  over it visits each distinct index once, in ascending order. \<open>value()\<close> throws on an absent
  index. The result of \<open>vkCreateDevice\<close> is an input.
\<close>

record VkDeviceQueueCreateInfo =
  queueFamilyIndex :: nat
  queueCount :: uint32_t

record VkDeviceCreateInfo =
  pQueueCreateInfos :: "VkDeviceQueueCreateInfo list"
  ppEnabledExtensionNames :: "string list"
  ppEnabledLayerNames :: "string list"

definition value_opt :: "'a option \<Rightarrow> error + 'a" where
  "value_opt x = (case x of None \<Rightarrow> Inl BadOptionalAccess | Some v \<Rightarrow> Inr v)"

definition createLogicalDevice ::
  "Framework_members \<Rightarrow> VkPhysicalDevice \<Rightarrow> VkResult \<Rightarrow> error + VkDeviceCreateInfo"
where
  "createLogicalDevice this physicalDevice vkCreateDevice =
     (let indices = findQueueFamilies physicalDevice
      in case value_opt (graphicsFamily indices) of
           Inl e \<Rightarrow> Inl e
         | Inr g \<Rightarrow>
             (case value_opt (presentationFamily indices) of
                Inl e \<Rightarrow> Inl e
              | Inr p \<Rightarrow>
                  (let uniqueQueueFamilies = sorted_list_of_set {g, p};
                       queueCreateInfos =
                         map (\<lambda>queueFamily. \<lparr> queueFamilyIndex = queueFamily, queueCount = 1 \<rparr>)
                           uniqueQueueFamilies;
                       createInfo =
                         \<lparr> pQueueCreateInfos = queueCreateInfos,
                           ppEnabledExtensionNames = deviceExtensions this,
                           ppEnabledLayerNames =
                             (if enableValidationLayers this then validationLayers this else []) \<rparr>
                   in if vkCreateDevice \<noteq> VK_SUCCESS then Inl DeviceCreationFailed
                      else Inr createInfo)))"

subsection \<open>\<open>createSwapChain\<close> (lines 472-531)\<close>

text \<open>
  \<open>createSwapChain_createInfo\<close> is the request built in lines 474-518; \<open>createSwapChain\<close> hands
  it to \<open>vkCreateSwapchainKHR\<close>, whose result is an input. \<open>pQueueFamilyIndices\<close> is either
  \<open>nullptr\<close> (\<open>None\<close>) or the address of the local array \<open>queueFamilyIndices\<close> (\<open>Some\<close> of its two
  entries).
\<close>

record VkSwapchainCreateInfoKHR =
  ci_minImageCount :: uint32_t
  imageFormat :: VkFormat
  imageColorSpace :: VkColorSpaceKHR
  imageExtent :: VkExtent2D
  imageArrayLayers :: uint32_t
  imageSharingMode :: VkSharingMode
  queueFamilyIndexCount :: uint32_t
  pQueueFamilyIndices :: "nat list option"
  preTransform :: uint32_t
  presentMode :: VkPresentModeKHR
  clipped :: bool

definition createSwapChain_createInfo ::
  "Framework_members \<Rightarrow> VkPhysicalDevice \<Rightarrow> error + VkSwapchainCreateInfoKHR"
where
  "createSwapChain_createInfo this physicalDevice =
     (let swapChainSupport = querySwapChainSupport physicalDevice
      in case chooseSwapSurfaceFormat (surfaceFormats swapChainSupport) of
           Inl e \<Rightarrow> Inl e
         | Inr surfaceFormat \<Rightarrow>
            (let presentationMode = chooseSwapPresentationMode (presentationModes swapChainSupport);
                 extent = chooseSwapExtent this (surfaceCapabilities swapChainSupport);
                 imageCount = requestedImageCount (surfaceCapabilities swapChainSupport);
                 indices = findQueueFamilies physicalDevice
             in case value_opt (graphicsFamily indices) of
                  Inl e \<Rightarrow> Inl e
                | Inr g \<Rightarrow>
                   (case value_opt (presentationFamily indices) of
                      Inl e \<Rightarrow> Inl e
                    | Inr p \<Rightarrow>
                       (let queueFamilyIndices = [g, p]
                        in Inr
                            \<lparr> ci_minImageCount = imageCount,
                              imageFormat = format surfaceFormat,
                              imageColorSpace = colorSpace surfaceFormat,
                              imageExtent = extent,
                              imageArrayLayers = 1,
                              imageSharingMode =
                                (if graphicsFamily indices \<noteq> presentationFamily indices
                                 then VK_SHARING_MODE_CONCURRENT else VK_SHARING_MODE_EXCLUSIVE),
                              queueFamilyIndexCount =
                                (if graphicsFamily indices \<noteq> presentationFamily indices
                                 then 2 else 0),
                              pQueueFamilyIndices =
                                (if graphicsFamily indices \<noteq> presentationFamily indices
                                 then Some queueFamilyIndices else None),
                              preTransform =
                                currentTransform (surfaceCapabilities swapChainSupport),
                              presentMode = presentationMode,
                              clipped = True \<rparr>))))"

definition createSwapChain ::
  "Framework_members \<Rightarrow> VkPhysicalDevice \<Rightarrow> VkResult \<Rightarrow> error + VkSwapchainCreateInfoKHR"
where
  "createSwapChain this physicalDevice vkCreateSwapchainKHR =
     (case createSwapChain_createInfo this physicalDevice of
        Inl e \<Rightarrow> Inl e
      | Inr createInfo \<Rightarrow>
          if vkCreateSwapchainKHR \<noteq> VK_SUCCESS then Inl SwapchainCreationFailed
          else Inr createInfo)"

section \<open>Instance creation\<close>

subsection \<open>\<open>isValidationLayerSupported\<close> (lines 231-259)\<close>

text \<open>
  The inner loop compares names with \<open>strcmp(...) == 0\<close>, which is equality of the two strings.
  The list of \<open>VkLayerProperties\<close> is what \<open>vkEnumerateInstanceLayerProperties\<close> reports.
\<close>

fun layerFound_loop :: "string \<Rightarrow> VkLayerProperties list \<Rightarrow> bool" where
  "layerFound_loop layerName' [] = False"
| "layerFound_loop layerName' (layerProperties # rest) =
     (if layerName' = layerName layerProperties then True
      else layerFound_loop layerName' rest)"

fun isValidationLayerSupported_loop :: "string list \<Rightarrow> VkLayerProperties list \<Rightarrow> bool" where
  "isValidationLayerSupported_loop [] availableLayers = True"
| "isValidationLayerSupported_loop (layerName' # rest) availableLayers =
     (let layerFound = layerFound_loop layerName' availableLayers
      in if \<not> layerFound then False
         else isValidationLayerSupported_loop rest availableLayers)"

definition isValidationLayerSupported :: "Framework_members \<Rightarrow> VkLayerProperties list \<Rightarrow> bool" where
  "isValidationLayerSupported this availableLayers =
     isValidationLayerSupported_loop (validationLayers this) availableLayers"

subsection \<open>\<open>getRequiredExtensions\<close> (lines 263-275) and \<open>createInstance\<close> (lines 127-179)\<close>

text \<open>
  Modelled from the spec: the macro \<open>VK_EXT_DEBUG_UTILS_EXTENSION_NAME\<close> comes from the Vulkan
  header; it is the "diagnostics extension appended conditionally".
\<close>

definition VK_EXT_DEBUG_UTILS_EXTENSION_NAME :: string where
  "VK_EXT_DEBUG_UTILS_EXTENSION_NAME = ''VK_EXT_debug_utils''"

definition getRequiredExtensions :: "Framework_members \<Rightarrow> string list \<Rightarrow> string list" where
  "getRequiredExtensions this glfwExtensions =
     (if enableValidationLayers this
      then glfwExtensions @ [VK_EXT_DEBUG_UTILS_EXTENSION_NAME]
      else glfwExtensions)"

record VkInstanceCreateInfo =
  inst_ppEnabledExtensionNames :: "string list"
  inst_ppEnabledLayerNames :: "string list"

text \<open>
  The inputs are the three things the libraries report: the available layers, the extensions
  GLFW requires, and the result of \<open>vkCreateInstance\<close>. The first statement of the body is the
  layer check; \<open>&&\<close> does not evaluate \<open>isValidationLayerSupported\<close> when validation is disabled.
\<close>

definition createInstance ::
  "Framework_members \<Rightarrow> VkLayerProperties list \<Rightarrow> string list \<Rightarrow> VkResult
     \<Rightarrow> error + VkInstanceCreateInfo"
where
  "createInstance this availableLayers glfwExtensions vkCreateInstance =
     (if enableValidationLayers this \<and> \<not> isValidationLayerSupported this availableLayers
      then Inl UnsupportedLayer
      else
        (let extensions = getRequiredExtensions this glfwExtensions;
             createInfo =
               \<lparr> inst_ppEnabledExtensionNames = extensions,
                 inst_ppEnabledLayerNames =
                   (if enableValidationLayers this then validationLayers this else []) \<rparr>
         in if vkCreateInstance \<noteq> VK_SUCCESS then Inl InstanceCreationFailed
            else Inr createInfo))"

section \<open>Creation and teardown order\<close>

text \<open>
  The success path of \<open>run\<close> (lines 30-36): every stage function appends the resources it
  creates to the list of live resources, in the order of its calls; \<open>cleanup\<close> lists the
  resources in the order of its destroy calls. \<open>n\<close> is the number of swapchain images, that is
  the size of \<open>swapChainImageViews\<close>. \<open>selectPhysicalDevice\<close> creates nothing. On the success
  path with validation enabled the messenger has been created: \<open>createDebugMessenger\<close> throws
  when \<open>createDebugUtilsMessengerEXT\<close> does not return \<open>VK_SUCCESS\<close>, which includes the case that
  \<open>vkGetInstanceProcAddr\<close> does not find the creating entry point.
\<close>

datatype resource =
    GlfwLibrary
  | Window
  | Instance
  | DebugMessenger
  | Surface
  | LogicalDevice
  | SwapChain
  | ImageView nat

definition initWindow_created :: "resource list" where
  "initWindow_created = [GlfwLibrary, Window]"

definition createInstance_created :: "resource list" where
  "createInstance_created = [Instance]"

definition createDebugMessenger_created :: "Framework_members \<Rightarrow> resource list" where
  "createDebugMessenger_created this =
     (if \<not> enableValidationLayers this then [] else [DebugMessenger])"

definition createSurface_created :: "resource list" where
  "createSurface_created = [Surface]"

definition createLogicalDevice_created :: "resource list" where
  "createLogicalDevice_created = [LogicalDevice]"

definition createSwapChain_created :: "resource list" where
  "createSwapChain_created = [SwapChain]"

definition selectPhysicalDevice_created :: "resource list" where
  "selectPhysicalDevice_created = []"

definition createImageViews_created :: "nat \<Rightarrow> resource list" where
  "createImageViews_created n = map ImageView [0..<n]"

definition initVulkan_created :: "Framework_members \<Rightarrow> nat \<Rightarrow> resource list" where
  "initVulkan_created this n =
     createInstance_created
     @ createDebugMessenger_created this
     @ createSurface_created
     @ selectPhysicalDevice_created
     @ createLogicalDevice_created
     @ createSwapChain_created
     @ createImageViews_created n"

text \<open>
  \<open>destroyDebugUtilsMessengerEXT\<close> (lines 223-228) looks the destroying entry point up with
  \<open>vkGetInstanceProcAddr\<close> and calls it only \<open>if (func != nullptr)\<close>; otherwise it does nothing.
  Whether the lookup finds the entry point is an input, \<open>func_found\<close>.
\<close>

definition destroyDebugUtilsMessengerEXT_destroyed :: "bool \<Rightarrow> resource list" where
  "destroyDebugUtilsMessengerEXT_destroyed func_found =
     (if func_found then [DebugMessenger] else [])"

text \<open>\<open>cleanup\<close> (lines 109-124), in the order of its calls.\<close>

definition cleanup_destroyed :: "Framework_members \<Rightarrow> bool \<Rightarrow> nat \<Rightarrow> resource list" where
  "cleanup_destroyed this func_found n =
     map ImageView [0..<n]
     @ [SwapChain]
     @ [LogicalDevice]
     @ (if enableValidationLayers this
        then destroyDebugUtilsMessengerEXT_destroyed func_found else [])
     @ [Surface]
     @ [Instance]
     @ [Window]
     @ [GlfwLibrary]"

text \<open>
  The claim speaks of stages: all image views form one stage, the window provider (library and
  window) another. \<open>stages\<close> turns a list of resources into the list of stages it walks through.
\<close>

datatype stage =
    WindowStage
  | InstanceStage
  | DiagnosticsStage
  | SurfaceStage
  | LogicalDeviceStage
  | SwapchainStage
  | ImageViewsStage

fun stage_of :: "resource \<Rightarrow> stage" where
  "stage_of GlfwLibrary = WindowStage"
| "stage_of Window = WindowStage"
| "stage_of Instance = InstanceStage"
| "stage_of DebugMessenger = DiagnosticsStage"
| "stage_of Surface = SurfaceStage"
| "stage_of LogicalDevice = LogicalDeviceStage"
| "stage_of SwapChain = SwapchainStage"
| "stage_of (ImageView i) = ImageViewsStage"

definition stages :: "resource list \<Rightarrow> stage list" where
  "stages rs = remdups_adj (map stage_of rs)"

text \<open>
  The handles each creation call of the source is given: \<open>createDebugUtilsMessengerEXT(instance,
  ...)\<close>, \<open>glfwCreateWindowSurface(instance, window, ...)\<close>, \<open>vkCreateDevice(physicalDevice, ...)\<close>
  with the physical device enumerated from the instance, \<open>vkCreateSwapchainKHR(device, ...)\<close> with
  \<open>createInfo.surface\<close>, \<open>vkCreateImageView(device, ...)\<close> with an image of the swapchain.
\<close>

fun created_from :: "resource \<Rightarrow> resource list" where
  "created_from GlfwLibrary = []"
| "created_from Window = [GlfwLibrary]"
| "created_from Instance = []"
| "created_from DebugMessenger = [Instance]"
| "created_from Surface = [Instance, Window]"
| "created_from LogicalDevice = [Instance]"
| "created_from SwapChain = [LogicalDevice, Surface]"
| "created_from (ImageView i) = [LogicalDevice, SwapChain]"

text \<open>
  \<open>run\<close> calls \<open>initWindow\<close>, then \<open>initVulkan\<close>; \<open>cleanup\<close> runs after the main loop.
\<close>

definition run_created :: "Framework_members \<Rightarrow> nat \<Rightarrow> resource list" where
  "run_created this n = initWindow_created @ initVulkan_created this n"

text \<open>
  \<open>parents_alive destroyed ds\<close>: walking the destroy calls \<open>ds\<close> in order, with \<open>destroyed\<close> already
  gone, no resource is destroyed after a handle it was created from.
\<close>

fun parents_alive :: "resource list \<Rightarrow> resource list \<Rightarrow> bool" where
  "parents_alive destroyed [] = True"
| "parents_alive destroyed (r # rest) =
     (list_all (\<lambda>p. p \<notin> set destroyed) (created_from r) \<and> parents_alive (r # destroyed) rest)"

section \<open>Notions of the specification and example inputs\<close>

text \<open>The spec's preferred pair: the 8-bit BGRA sRGB format with the nonlinear sRGB color space.\<close>

definition preferredFormat :: VkSurfaceFormatKHR where
  "preferredFormat =
     \<lparr> format = VK_FORMAT_B8G8R8A8_SRGB, colorSpace = VK_COLOR_SPACE_SRGB_NONLINEAR_KHR \<rparr>"

text \<open>
  A capability snapshot with the image counts and the current extent left open, and the bounds
  of the spec's example: minimum \<open>(400, 300)\<close>, maximum \<open>(1920, 1080)\<close>.
\<close>

definition example_capabilities :: "uint32_t \<Rightarrow> uint32_t \<Rightarrow> VkExtent2D \<Rightarrow> VkSurfaceCapabilitiesKHR" where
  "example_capabilities lo hi current =
     \<lparr> minImageCount = lo,
       maxImageCount = hi,
       currentExtent = current,
       minImageExtent = \<lparr> width = 400, height = 300 \<rparr>,
       maxImageExtent = \<lparr> width = 1920, height = 1080 \<rparr>,
       currentTransform = 1 \<rparr>"

text \<open>
  The three checks of the device selector, in the spec's words: both queue families found, the
  required extensions a subset of the enumerated ones, at least one surface format and one
  presentation mode.
\<close>

definition extensionsSupported :: "Framework_members \<Rightarrow> VkPhysicalDevice \<Rightarrow> bool" where
  "extensionsSupported this device =
     (set (deviceExtensions this) \<subseteq> extensionName ` set (extensionProperties device))"

definition swapchainAdequate :: "VkPhysicalDevice \<Rightarrow> bool" where
  "swapchainAdequate device =
     (surfaceFormatsKHR device \<noteq> [] \<and> surfacePresentModesKHR device \<noteq> [])"

definition threeChecks :: "Framework_members \<Rightarrow> VkPhysicalDevice \<Rightarrow> bool" where
  "threeChecks this device =
     (IsComplete (findQueueFamilies device)
      \<and> extensionsSupported this device
      \<and> swapchainAdequate device)"

text \<open>
  An example device: the flags of its queue families, the answer of the presentation query per
  index, the names of its extensions, its surface formats and its presentation modes.
\<close>

definition example_device ::
  "uint32_t list \<Rightarrow> (nat \<Rightarrow> bool) \<Rightarrow> string list \<Rightarrow> VkSurfaceFormatKHR list
     \<Rightarrow> VkPresentModeKHR list \<Rightarrow> VkPhysicalDevice"
where
  "example_device flags support names formats modes =
     \<lparr> queueFamilyProperties = map (\<lambda>f. \<lparr> queueFlags = f \<rparr>) flags,
       surfaceSupportKHR = support,
       extensionProperties = map (\<lambda>n. \<lparr> extensionName = n \<rparr>) names,
       surfaceCapabilitiesKHR =
         example_capabilities 2 0 \<lparr> width = 0xFFFFFFFF, height = 0xFFFFFFFF \<rparr>,
       surfaceFormatsKHR = formats,
       surfacePresentModesKHR = modes \<rparr>"

text \<open>
  Queue families by capability: family \<open>i\<close> of a device offers graphics capability, or passes
  the presentation-support query for index \<open>i\<close>.
\<close>

definition graphicsCapable :: "VkPhysicalDevice \<Rightarrow> nat \<Rightarrow> bool" where
  "graphicsCapable device i =
     (i < length (queueFamilyProperties device)
      \<and> queueFlags (queueFamilyProperties device ! i) AND VK_QUEUE_GRAPHICS_BIT \<noteq> 0)"

definition presentationCapable :: "VkPhysicalDevice \<Rightarrow> nat \<Rightarrow> bool" where
  "presentationCapable device i =
     (i < length (queueFamilyProperties device) \<and> surfaceSupportKHR device i)"

text \<open>
  One step of recording: index \<open>j\<close> replaces what was recorded when \<open>Q j\<close> holds. \<open>bothSeen d i ind
  k\<close> says that a scan that starts at family \<open>i\<close> with the indices \<open>ind\<close> has both fields recorded
  when it reaches the completeness test of family \<open>k\<close>.
\<close>

definition latest :: "(nat \<Rightarrow> bool) \<Rightarrow> nat \<Rightarrow> nat option \<Rightarrow> nat option" where
  "latest Q j acc = (if Q j then Some j else acc)"

definition bothSeen :: "VkPhysicalDevice \<Rightarrow> nat \<Rightarrow> QueueFamilyIndices \<Rightarrow> nat \<Rightarrow> bool" where
  "bothSeen d i ind k =
     (fold (latest (graphicsCapable d)) [i..<Suc k] (graphicsFamily ind) \<noteq> None
      \<and> fold (latest (presentationCapable d)) [i..<k] (presentationFamily ind) \<noteq> None)"

text \<open>
  \<open>completeAt d k\<close>: some family at or before \<open>k\<close> offers graphics and some family strictly
  before \<open>k\<close> passes the presentation query. \<open>scanStop d\<close> is the first such \<open>k\<close>, or the number
  of families when there is none. \<open>lastBelow Q m\<close> is the greatest index below \<open>m\<close> with \<open>Q\<close>.
\<close>

definition completeAt :: "VkPhysicalDevice \<Rightarrow> nat \<Rightarrow> bool" where
  "completeAt device k =
     (list_ex (graphicsCapable device) [0..<Suc k] \<and> list_ex (presentationCapable device) [0..<k])"

definition scanStop :: "VkPhysicalDevice \<Rightarrow> nat" where
  "scanStop device =
     (case find (completeAt device) [0..<length (queueFamilyProperties device)] of
        None \<Rightarrow> length (queueFamilyProperties device)
      | Some k \<Rightarrow> k)"

definition lastBelow :: "(nat \<Rightarrow> bool) \<Rightarrow> nat \<Rightarrow> nat option" where
  "lastBelow Q m = find Q (rev [0..<m])"

text \<open>
  The claim's words: the first family index, in enumeration order, offering graphics
  capability, and the first one passing the presentation query.
\<close>

definition firstGraphicsFamily :: "VkPhysicalDevice \<Rightarrow> nat option" where
  "firstGraphicsFamily device =
     find (graphicsCapable device) [0..<length (queueFamilyProperties device)]"

definition firstPresentationFamily :: "VkPhysicalDevice \<Rightarrow> nat option" where
  "firstPresentationFamily device =
     find (presentationCapable device) [0..<length (queueFamilyProperties device)]"

section \<open>Verified properties\<close>

subsection \<open>Surface format\<close>

lemma chooseSwapSurfaceFormat_loop_eq:
  "chooseSwapSurfaceFormat_loop fs = (if preferredFormat \<in> set fs then Some preferredFormat else None)"
  by (induction fs) (auto simp: preferredFormat_def)

text \<open>
  Claim C4. For every non-empty list of supported formats, \<open>chooseSwapSurfaceFormat\<close> returns the
  preferred pair (8-bit BGRA sRGB, nonlinear sRGB) when that pair occurs anywhere in the list,
  and the element at index 0 otherwise.
\<close>

theorem chooseSwapSurfaceFormat_preferred_else_first:
  assumes "availableFormats \<noteq> []"
  shows "chooseSwapSurfaceFormat availableFormats =
     Inr (if preferredFormat \<in> set availableFormats then preferredFormat else availableFormats ! 0)"
  using assms
  by (cases availableFormats)
     (simp_all add: chooseSwapSurfaceFormat_def chooseSwapSurfaceFormat_loop_eq)

theorem chooseSwapSurfaceFormat_preferred_else_first_witness:
  "chooseSwapSurfaceFormat
      [\<lparr> format = VK_FORMAT_B8G8R8A8_UNORM, colorSpace = VK_COLOR_SPACE_SRGB_NONLINEAR_KHR \<rparr>,
       \<lparr> format = VK_FORMAT_B8G8R8A8_SRGB, colorSpace = VK_COLOR_SPACE_SRGB_NONLINEAR_KHR \<rparr>]
     = Inr \<lparr> format = VK_FORMAT_B8G8R8A8_SRGB, colorSpace = VK_COLOR_SPACE_SRGB_NONLINEAR_KHR \<rparr>
   \<and> chooseSwapSurfaceFormat
      [\<lparr> format = VK_FORMAT_B8G8R8A8_UNORM, colorSpace = VK_COLOR_SPACE_SRGB_NONLINEAR_KHR \<rparr>,
       \<lparr> format = VK_FORMAT_B8G8R8A8_SRGB, colorSpace = VK_COLOR_SPACE_OTHER 7 \<rparr>]
     = Inr \<lparr> format = VK_FORMAT_B8G8R8A8_UNORM, colorSpace = VK_COLOR_SPACE_SRGB_NONLINEAR_KHR \<rparr>"
  using chooseSwapSurfaceFormat_preferred_else_first
          [of "[\<lparr> format = VK_FORMAT_B8G8R8A8_UNORM, colorSpace = VK_COLOR_SPACE_SRGB_NONLINEAR_KHR \<rparr>,
                \<lparr> format = VK_FORMAT_B8G8R8A8_SRGB, colorSpace = VK_COLOR_SPACE_SRGB_NONLINEAR_KHR \<rparr>]"]
        chooseSwapSurfaceFormat_preferred_else_first
          [of "[\<lparr> format = VK_FORMAT_B8G8R8A8_UNORM, colorSpace = VK_COLOR_SPACE_SRGB_NONLINEAR_KHR \<rparr>,
                \<lparr> format = VK_FORMAT_B8G8R8A8_SRGB, colorSpace = VK_COLOR_SPACE_OTHER 7 \<rparr>]"]
  by (simp add: preferredFormat_def)

subsection \<open>Presentation mode\<close>

text \<open>
  Claim C5. For every list of supported modes, \<open>chooseSwapPresentationMode\<close> returns the mailbox
  mode when it occurs anywhere in the list and the FIFO mode otherwise, whether or not FIFO is
  in the list.
\<close>

theorem chooseSwapPresentationMode_mailbox_else_fifo:
  "chooseSwapPresentationMode availablePresentationModes =
     (if VK_PRESENT_MODE_MAILBOX_KHR \<in> set availablePresentationModes
      then VK_PRESENT_MODE_MAILBOX_KHR else VK_PRESENT_MODE_FIFO_KHR)"
  by (induction availablePresentationModes) auto

theorem chooseSwapPresentationMode_mailbox_else_fifo_witness:
  "chooseSwapPresentationMode
     [VK_PRESENT_MODE_IMMEDIATE_KHR, VK_PRESENT_MODE_FIFO_RELAXED_KHR, VK_PRESENT_MODE_MAILBOX_KHR]
     = VK_PRESENT_MODE_MAILBOX_KHR
   \<and> chooseSwapPresentationMode [VK_PRESENT_MODE_IMMEDIATE_KHR, VK_PRESENT_MODE_FIFO_RELAXED_KHR]
     = VK_PRESENT_MODE_FIFO_KHR
   \<and> chooseSwapPresentationMode [] = VK_PRESENT_MODE_FIFO_KHR"
  using chooseSwapPresentationMode_mailbox_else_fifo
          [of "[VK_PRESENT_MODE_IMMEDIATE_KHR, VK_PRESENT_MODE_FIFO_RELAXED_KHR,
                VK_PRESENT_MODE_MAILBOX_KHR]"]
        chooseSwapPresentationMode_mailbox_else_fifo
          [of "[VK_PRESENT_MODE_IMMEDIATE_KHR, VK_PRESENT_MODE_FIFO_RELAXED_KHR]"]
        chooseSwapPresentationMode_mailbox_else_fifo [of "[]"]
  by simp

subsection \<open>Extent\<close>

text \<open>
  Claim C6, as stated, takes the pair \<open>(0xFFFFFFFF, 0xFFFFFFFF)\<close> for the undefined marker. The
  source tests the width alone: a current extent \<open>(0xFFFFFFFF, 5)\<close> is not that pair, yet it is
  not returned verbatim.
\<close>

theorem chooseSwapExtent_width_only_counterexample:
  "currentExtent (example_capabilities 2 0 \<lparr> width = 0xFFFFFFFF, height = 5 \<rparr>)
     \<noteq> \<lparr> width = 0xFFFFFFFF, height = 0xFFFFFFFF \<rparr>
   \<and> chooseSwapExtent (Framework False)
        (example_capabilities 2 0 \<lparr> width = 0xFFFFFFFF, height = 5 \<rparr>)
     \<noteq> currentExtent (example_capabilities 2 0 \<lparr> width = 0xFFFFFFFF, height = 5 \<rparr>)"
  by (simp add: chooseSwapExtent_def example_capabilities_def Framework_def UINT32_MAX_def)

text \<open>
  Claim C6, amended. If the width of \<open>currentExtent\<close> is not \<open>0xFFFFFFFF\<close>, \<open>chooseSwapExtent\<close>
  returns \<open>currentExtent\<close> verbatim. If it is \<open>0xFFFFFFFF\<close> (whatever the height), the result is the
  window size of the class clamped per axis, \<open>max lo (min hi target)\<close>, which lies within the
  bounds of an axis whenever that axis has \<open>lo \<le> hi\<close>.
\<close>

theorem chooseSwapExtent_by_width:
  "(width (currentExtent capabilities) \<noteq> UINT32_MAX \<longrightarrow>
      chooseSwapExtent this capabilities = currentExtent capabilities)
   \<and> (width (currentExtent capabilities) = UINT32_MAX \<longrightarrow>
      chooseSwapExtent this capabilities =
        \<lparr> width = max (width (minImageExtent capabilities))
                    (min (width (maxImageExtent capabilities)) (word_of_int (WINDOW_WIDTH this))),
          height = max (height (minImageExtent capabilities))
                    (min (height (maxImageExtent capabilities)) (word_of_int (WINDOW_HEIGHT this))) \<rparr>
      \<and> (width (minImageExtent capabilities) \<le> width (maxImageExtent capabilities) \<longrightarrow>
           width (minImageExtent capabilities) \<le> width (chooseSwapExtent this capabilities)
           \<and> width (chooseSwapExtent this capabilities) \<le> width (maxImageExtent capabilities))
      \<and> (height (minImageExtent capabilities) \<le> height (maxImageExtent capabilities) \<longrightarrow>
           height (minImageExtent capabilities) \<le> height (chooseSwapExtent this capabilities)
           \<and> height (chooseSwapExtent this capabilities) \<le> height (maxImageExtent capabilities)))"
  by (simp add: chooseSwapExtent_def Let_def)

text \<open>
  The examples of the claim: the window size \<open>(800, 600)\<close> of the source inside the bounds, a
  window size \<open>(100, 100)\<close> below them, and a defined current extent.
\<close>

theorem chooseSwapExtent_by_width_witness:
  "chooseSwapExtent (Framework False)
       (example_capabilities 2 0 \<lparr> width = 0xFFFFFFFF, height = 0xFFFFFFFF \<rparr>)
     = \<lparr> width = 800, height = 600 \<rparr>
   \<and> chooseSwapExtent (Framework False \<lparr> WINDOW_WIDTH := 100, WINDOW_HEIGHT := 100 \<rparr>)
        (example_capabilities 2 0 \<lparr> width = 0xFFFFFFFF, height = 0xFFFFFFFF \<rparr>)
     = \<lparr> width = 400, height = 300 \<rparr>
   \<and> chooseSwapExtent (Framework False) (example_capabilities 2 0 \<lparr> width = 1024, height = 768 \<rparr>)
     = \<lparr> width = 1024, height = 768 \<rparr>"
  using chooseSwapExtent_by_width
          [of "example_capabilities 2 0 \<lparr> width = 0xFFFFFFFF, height = 0xFFFFFFFF \<rparr>"
              "Framework False"]
        chooseSwapExtent_by_width
          [of "example_capabilities 2 0 \<lparr> width = 0xFFFFFFFF, height = 0xFFFFFFFF \<rparr>"
              "Framework False \<lparr> WINDOW_WIDTH := 100, WINDOW_HEIGHT := 100 \<rparr>"]
        chooseSwapExtent_by_width
          [of "example_capabilities 2 0 \<lparr> width = 1024, height = 768 \<rparr>" "Framework False"]
  by (simp add: example_capabilities_def Framework_def UINT32_MAX_def)

subsection \<open>Image count\<close>

lemma requestedImageCount_unat:
  "unat (requestedImageCount c) =
     (let n = (unat (minImageCount c) + 1) mod 2 ^ 32
      in if unat (maxImageCount c) \<noteq> 0 \<and> unat (maxImageCount c) < n
         then unat (maxImageCount c) else n)"
  by (simp add: requestedImageCount_def Let_def word_less_nat_alt unat_word_ariths unat_gt_0)

text \<open>
  Claim C7, as stated, speaks of every snapshot. The count is a \<open>uint32_t\<close>: with
  \<open>minImageCount = 0xFFFFFFFF\<close> and no maximum, the sum wraps and the requested count is 0, not
  \<open>minImageCount + 1\<close>.
\<close>

theorem requestedImageCount_wraps_counterexample:
  "maxImageCount (example_capabilities 0xFFFFFFFF 0 \<lparr> width = 800, height = 600 \<rparr>) = 0
   \<and> unat (requestedImageCount (example_capabilities 0xFFFFFFFF 0 \<lparr> width = 800, height = 600 \<rparr>))
     \<noteq> unat (minImageCount (example_capabilities 0xFFFFFFFF 0 \<lparr> width = 800, height = 600 \<rparr>)) + 1"
  by (simp add: requestedImageCount_def example_capabilities_def)

text \<open>
  Claim C7, amended. For every snapshot whose \<open>minImageCount\<close> is below \<open>0xFFFFFFFF\<close>, the
  requested count is \<open>minImageCount + 1\<close>, clamped down to \<open>maxImageCount\<close> when that is nonzero
  and smaller; a zero \<open>maxImageCount\<close> never clamps.
\<close>

theorem requestedImageCount_below_max:
  assumes "minImageCount c \<noteq> UINT32_MAX"
  shows "unat (requestedImageCount c) =
     (if unat (maxImageCount c) \<noteq> 0 \<and> unat (maxImageCount c) < unat (minImageCount c) + 1
      then unat (maxImageCount c) else unat (minImageCount c) + 1)"
proof -
  have "unat (minImageCount c) \<noteq> unat UINT32_MAX"
    using assms by (simp add: word_unat_eq_iff)
  moreover have "unat (minImageCount c) < 2 ^ 32"
    using unsigned_less [of "minImageCount c", where ?'a = nat] by simp
  ultimately have "unat (minImageCount c) + 1 < 2 ^ 32"
    by (simp add: UINT32_MAX_def)
  then show ?thesis
    by (simp add: requestedImageCount_unat Let_def)
qed

text \<open>The two examples of the claim: \<open>(2, 0)\<close> gives 3, and \<open>(3, 3)\<close> gives 3.\<close>

theorem requestedImageCount_below_max_witness:
  "unat (requestedImageCount (example_capabilities 2 0 \<lparr> width = 800, height = 600 \<rparr>)) = 3
   \<and> unat (requestedImageCount (example_capabilities 3 3 \<lparr> width = 800, height = 600 \<rparr>)) = 3"
  using requestedImageCount_below_max [of "example_capabilities 2 0 \<lparr> width = 800, height = 600 \<rparr>"]
        requestedImageCount_below_max [of "example_capabilities 3 3 \<lparr> width = 800, height = 600 \<rparr>"]
  by (simp add: example_capabilities_def UINT32_MAX_def)

subsection \<open>Validation layers\<close>

lemma layerFound_loop_iff: "layerFound_loop n ls \<longleftrightarrow> n \<in> layerName ` set ls"
  by (induction ls) auto

lemma isValidationLayerSupported_loop_iff:
  "isValidationLayerSupported_loop ns ls \<longleftrightarrow> (\<forall>n \<in> set ns. n \<in> layerName ` set ls)"
  by (induction ns) (auto simp: layerFound_loop_iff Let_def)

text \<open>
  Claim C9. \<open>createInstance\<close> fails with \<open>UnsupportedLayer\<close> exactly when validation layers are
  enabled and some requested layer name equals no name of the available layers. When they are
  disabled it never fails so, and its result does not depend on the available layers.
\<close>

theorem createInstance_UnsupportedLayer_iff:
  "(createInstance this availableLayers glfwExtensions vkCreateInstance = Inl UnsupportedLayer
      \<longleftrightarrow> enableValidationLayers this
          \<and> (\<exists>requested \<in> set (validationLayers this).
                requested \<notin> layerName ` set availableLayers))
   \<and> (\<not> enableValidationLayers this \<longrightarrow>
        createInstance this availableLayers glfwExtensions vkCreateInstance \<noteq> Inl UnsupportedLayer
        \<and> createInstance this availableLayers glfwExtensions vkCreateInstance
            = createInstance this [] glfwExtensions vkCreateInstance)"
  by (auto simp: createInstance_def isValidationLayerSupported_def
        isValidationLayerSupported_loop_iff Let_def)

theorem createInstance_UnsupportedLayer_iff_witness:
  "createInstance (Framework False) [\<lparr> layerName = ''VK_LAYER_LUNARG_api_dump'' \<rparr>]
      [''VK_KHR_surface''] VK_SUCCESS = Inl UnsupportedLayer
   \<and> createInstance (Framework False) [\<lparr> layerName = ''VK_LAYER_KHRONOS_validation'' \<rparr>]
      [''VK_KHR_surface''] VK_SUCCESS \<noteq> Inl UnsupportedLayer
   \<and> createInstance (Framework True) [] [''VK_KHR_surface''] VK_SUCCESS \<noteq> Inl UnsupportedLayer"
  using createInstance_UnsupportedLayer_iff
          [of "Framework False" "[\<lparr> layerName = ''VK_LAYER_LUNARG_api_dump'' \<rparr>]"
              "[''VK_KHR_surface'']" VK_SUCCESS]
        createInstance_UnsupportedLayer_iff
          [of "Framework False" "[\<lparr> layerName = ''VK_LAYER_KHRONOS_validation'' \<rparr>]"
              "[''VK_KHR_surface'']" VK_SUCCESS]
        createInstance_UnsupportedLayer_iff
          [of "Framework True" "[]" "[''VK_KHR_surface'']" VK_SUCCESS]
  by (simp add: Framework_def)

subsection \<open>Queue families\<close>

lemma fold_latest_from:
  "i < m \<Longrightarrow> fold (latest Q) [i..<m] acc = fold (latest Q) [Suc i..<m] (latest Q i acc)"
  by (simp add: upt_conv_Cons)

lemma loop_folds:
  assumes "i \<le> length (queueFamilyProperties d)"
  shows "\<exists>k. i \<le> k \<and> k \<le> length (queueFamilyProperties d)
      \<and> (k < length (queueFamilyProperties d) \<longrightarrow> bothSeen d i ind k)
      \<and> (\<forall>k'. i \<le> k' \<and> k' < k \<longrightarrow> \<not> bothSeen d i ind k')
      \<and> graphicsFamily (findQueueFamilies_loop (drop i (queueFamilyProperties d))
            (surfaceSupportKHR d) i ind)
          = fold (latest (graphicsCapable d)) [i..<Suc k] (graphicsFamily ind)
      \<and> presentationFamily (findQueueFamilies_loop (drop i (queueFamilyProperties d))
            (surfaceSupportKHR d) i ind)
          = fold (latest (presentationCapable d)) [i..<k] (presentationFamily ind)"
  using assms
proof (induction "length (queueFamilyProperties d) - i" arbitrary: i ind)
  case 0
  then have i: "i = length (queueFamilyProperties d)" by simp
  have "\<not> graphicsCapable d i" by (simp add: graphicsCapable_def i)
  then show ?case
    by (intro exI [of _ i]) (auto simp: i latest_def)
next
  case (Suc m)
  let ?fs = "queueFamilyProperties d"
  let ?sup = "surfaceSupportKHR d"
  from Suc.hyps(2) have lt: "i < length ?fs" by simp
  then have drop: "drop i ?fs = ?fs ! i # drop (Suc i) ?fs"
    by (simp add: Cons_nth_drop_Suc)
  define ind1 where "ind1 = ind \<lparr> graphicsFamily := latest (graphicsCapable d) i (graphicsFamily ind) \<rparr>"
  define ind2 where "ind2 = ind1 \<lparr> presentationFamily := latest (presentationCapable d) i (presentationFamily ind1) \<rparr>"
  have g1: "(if queueFlags (?fs ! i) AND VK_QUEUE_GRAPHICS_BIT \<noteq> 0
             then ind \<lparr> graphicsFamily := Some i \<rparr> else ind) = ind1"
    using lt by (simp add: ind1_def latest_def graphicsCapable_def)
  have p2: "(if ?sup i then ind1 \<lparr> presentationFamily := Some i \<rparr> else ind1) = ind2"
    using lt by (simp add: ind2_def latest_def presentationCapable_def)
  have step: "findQueueFamilies_loop (drop i ?fs) ?sup i ind =
      (if IsComplete ind1 then ind1 else findQueueFamilies_loop (drop (Suc i) ?fs) ?sup (Suc i) ind2)"
    by (simp add: drop g1 p2 Let_def del: drop_Suc)
  show ?case
  proof (cases "IsComplete ind1")
    case True
    have "bothSeen d i ind i"
      using True by (simp add: bothSeen_def IsComplete_def ind1_def)
    then show ?thesis
      using True lt
      by (intro exI [of _ i]) (auto simp: step ind1_def)
  next
    case False
    have not_i: "\<not> bothSeen d i ind i"
      using False by (simp add: bothSeen_def IsComplete_def ind1_def)
    from Suc.hyps(2) lt have m: "m = length ?fs - Suc i" and le: "Suc i \<le> length ?fs" by simp_all
    from Suc.hyps(1) [OF m le, of ind2] obtain k where k:
      "Suc i \<le> k" "k \<le> length ?fs"
      "k < length ?fs \<longrightarrow> bothSeen d (Suc i) ind2 k"
      "\<forall>k'. Suc i \<le> k' \<and> k' < k \<longrightarrow> \<not> bothSeen d (Suc i) ind2 k'"
      "graphicsFamily (findQueueFamilies_loop (drop (Suc i) ?fs) ?sup (Suc i) ind2)
          = fold (latest (graphicsCapable d)) [Suc i..<Suc k] (graphicsFamily ind2)"
      "presentationFamily (findQueueFamilies_loop (drop (Suc i) ?fs) ?sup (Suc i) ind2)
          = fold (latest (presentationCapable d)) [Suc i..<k] (presentationFamily ind2)"
      by blast
    have shift: "bothSeen d (Suc i) ind2 k' = bothSeen d i ind k'" if "Suc i \<le> k'" for k'
      using that by (simp add: bothSeen_def fold_latest_from ind2_def ind1_def)
    have "\<forall>k'. i \<le> k' \<and> k' < k \<longrightarrow> \<not> bothSeen d i ind k'"
    proof (intro allI impI)
      fix k' assume a: "i \<le> k' \<and> k' < k"
      show "\<not> bothSeen d i ind k'"
      proof (cases "k' = i")
        case True with not_i show ?thesis by simp
      next
        case False
        with a have "Suc i \<le> k'" by simp
        with k(4) a shift show ?thesis by simp
      qed
    qed
    moreover have "k < length ?fs \<longrightarrow> bothSeen d i ind k"
      using k(1,3) shift by simp
    moreover have "graphicsFamily (findQueueFamilies_loop (drop i ?fs) ?sup i ind)
          = fold (latest (graphicsCapable d)) [i..<Suc k] (graphicsFamily ind)"
      using False k(1,5) by (simp add: step fold_latest_from ind2_def ind1_def)
    moreover have "presentationFamily (findQueueFamilies_loop (drop i ?fs) ?sup i ind)
          = fold (latest (presentationCapable d)) [i..<k] (presentationFamily ind)"
      using False k(1,6) by (simp add: step fold_latest_from ind2_def ind1_def)
    ultimately show ?thesis
      using k(1,2) by (intro exI [of _ k]) simp
  qed
qed

lemma fold_latest_lastBelow: "fold (latest Q) [0..<m] None = lastBelow Q m"
  by (induction m) (simp_all add: lastBelow_def latest_def)

lemma lastBelow_None_iff: "lastBelow Q m = None \<longleftrightarrow> \<not> list_ex Q [0..<m]"
  by (auto simp: lastBelow_def find_None_iff list_ex_iff)

lemma lastBelow_Some_iff:
  "lastBelow Q m = Some j \<longleftrightarrow> j < m \<and> Q j \<and> (\<forall>j'. j < j' \<and> j' < m \<longrightarrow> \<not> Q j')"
  by (induction m) (auto simp: lastBelow_def less_Suc_eq)

lemma bothSeen_start:
  "bothSeen d 0 \<lparr> graphicsFamily = None, presentationFamily = None \<rparr> k = completeAt d k"
  by (simp add: bothSeen_def completeAt_def fold_latest_lastBelow lastBelow_None_iff
        del: upt_Suc)

lemma scanStop_eq:
  assumes "k \<le> length (queueFamilyProperties d)"
    and "k < length (queueFamilyProperties d) \<longrightarrow> completeAt d k"
    and "\<forall>k' < k. \<not> completeAt d k'"
  shows "scanStop d = k"
proof (cases "k < length (queueFamilyProperties d)")
  case True
  with assms have "find (completeAt d) [0..<length (queueFamilyProperties d)] = Some k"
    by (auto simp: find_Some_iff)
  then show ?thesis by (simp add: scanStop_def)
next
  case False
  with assms have "find (completeAt d) [0..<length (queueFamilyProperties d)] = None"
    by (auto simp: find_None_iff)
  with False assms(1) show ?thesis by (simp add: scanStop_def)
qed

lemma findQueueFamilies_fields:
  "graphicsFamily (findQueueFamilies d) = lastBelow (graphicsCapable d) (Suc (scanStop d))
   \<and> presentationFamily (findQueueFamilies d) = lastBelow (presentationCapable d) (scanStop d)"
proof -
  let ?e = "\<lparr> graphicsFamily = None, presentationFamily = None \<rparr>"
  from loop_folds [of 0 d ?e] obtain k where k:
    "k \<le> length (queueFamilyProperties d)"
    "k < length (queueFamilyProperties d) \<longrightarrow> completeAt d k"
    "\<forall>k' < k. \<not> completeAt d k'"
    "graphicsFamily (findQueueFamilies d) = lastBelow (graphicsCapable d) (Suc k)"
    "presentationFamily (findQueueFamilies d) = lastBelow (presentationCapable d) k"
    by (auto simp: bothSeen_start findQueueFamilies_def fold_latest_lastBelow simp del: upt_Suc)
  from k(1,2,3) have "scanStop d = k" by (rule scanStop_eq)
  with k(4,5) show ?thesis by simp
qed

lemma scanStop_le: "scanStop d \<le> length (queueFamilyProperties d)"
  by (auto simp: scanStop_def find_Some_iff split: option.splits)

lemma scanStop_completeAt:
  assumes "scanStop d < length (queueFamilyProperties d)"
  shows "completeAt d (scanStop d)"
proof (cases "find (completeAt d) [0..<length (queueFamilyProperties d)]")
  case None
  with assms show ?thesis by (simp add: scanStop_def)
next
  case (Some k)
  then have "completeAt d k" by (auto simp: find_Some_iff)
  with Some show ?thesis by (simp add: scanStop_def)
qed

lemma graphicsFamily_present_iff:
  "graphicsFamily (findQueueFamilies d) \<noteq> None \<longleftrightarrow> (\<exists>g. graphicsCapable d g)"
proof
  assume "graphicsFamily (findQueueFamilies d) \<noteq> None"
  then show "\<exists>g. graphicsCapable d g"
    by (auto simp: findQueueFamilies_fields lastBelow_Some_iff)
next
  assume "\<exists>g. graphicsCapable d g"
  then obtain g where g: "graphicsCapable d g" ..
  then have gl: "g < length (queueFamilyProperties d)" by (simp add: graphicsCapable_def)
  have "list_ex (graphicsCapable d) [0..<Suc (scanStop d)]"
  proof (cases "scanStop d < length (queueFamilyProperties d)")
    case True
    then show ?thesis using scanStop_completeAt [of d] by (simp add: completeAt_def)
  next
    case False
    with gl have "g < Suc (scanStop d)" by simp
    with g show ?thesis unfolding list_ex_iff by (auto simp del: upt_Suc)
  qed
  then show "graphicsFamily (findQueueFamilies d) \<noteq> None"
    by (simp add: findQueueFamilies_fields lastBelow_None_iff del: upt_Suc)
qed

lemma presentationFamily_present_iff:
  "presentationFamily (findQueueFamilies d) \<noteq> None \<longleftrightarrow> (\<exists>p. presentationCapable d p)"
proof
  assume "presentationFamily (findQueueFamilies d) \<noteq> None"
  then show "\<exists>p. presentationCapable d p"
    by (auto simp: findQueueFamilies_fields lastBelow_Some_iff)
next
  assume "\<exists>p. presentationCapable d p"
  then obtain p where p: "presentationCapable d p" ..
  then have pl: "p < length (queueFamilyProperties d)" by (simp add: presentationCapable_def)
  have "list_ex (presentationCapable d) [0..<scanStop d]"
  proof (cases "scanStop d < length (queueFamilyProperties d)")
    case True
    then show ?thesis using scanStop_completeAt [of d] by (simp add: completeAt_def)
  next
    case False
    with pl have "p < scanStop d" by simp
    with p show ?thesis unfolding list_ex_iff by auto
  qed
  then show "presentationFamily (findQueueFamilies d) \<noteq> None"
    by (simp add: findQueueFamilies_fields lastBelow_None_iff)
qed

lemma IsComplete_findQueueFamilies_iff:
  "IsComplete (findQueueFamilies d)
     \<longleftrightarrow> (\<exists>g. graphicsCapable d g) \<and> (\<exists>p. presentationCapable d p)"
  unfolding IsComplete_def
  by (simp only: graphicsFamily_present_iff presentationFamily_present_iff)

text \<open>Unfolding the scan on the example devices.\<close>

lemmas family_eval = findQueueFamilies_def example_device_def VK_QUEUE_GRAPHICS_BIT_def IsComplete_def
  Let_def firstGraphicsFamily_def firstPresentationFamily_def graphicsCapable_def presentationCapable_def
  scanStop_def completeAt_def lastBelow_def

text \<open>
  Claim C2, as stated, fails: every graphics family overwrites \<open>graphicsFamily\<close> and every family
  passing the query overwrites \<open>presentationFamily\<close> until the scan stops. With two graphics
  families of which the first alone presents, the recorded graphics index is 1, not the first
  one, 0. With two presenting families followed by a graphics family, the recorded presentation
  index is 1, not the first one, 0.
\<close>

theorem findQueueFamilies_not_first_counterexample:
  "firstGraphicsFamily (example_device [1, 1] (\<lambda>i. i = 0) [] [] []) = Some 0
   \<and> graphicsFamily (findQueueFamilies (example_device [1, 1] (\<lambda>i. i = 0) [] [] [])) = Some 1
   \<and> firstPresentationFamily (example_device [0, 0, 1] (\<lambda>i. True) [] [] []) = Some 0
   \<and> presentationFamily (findQueueFamilies (example_device [0, 0, 1] (\<lambda>i. True) [] [] [])) = Some 1"
  by (simp add: family_eval)

text \<open>
  Claim C2, amended. The scan stops at the first family \<open>k\<close> such that some family at or before
  \<open>k\<close> offers graphics and some family strictly before \<open>k\<close> passes the presentation query, or
  at the end of the list. \<open>graphicsFamily\<close> is the last graphics family at or before the stop,
  \<open>presentationFamily\<close> the last family before the stop that passes the query. Each field is
  recorded exactly when some family has the capability.
\<close>

theorem findQueueFamilies_latest_scanned:
  "findQueueFamilies device =
     \<lparr> graphicsFamily = lastBelow (graphicsCapable device) (Suc (scanStop device)),
       presentationFamily = lastBelow (presentationCapable device) (scanStop device) \<rparr>
   \<and> (graphicsFamily (findQueueFamilies device) \<noteq> None \<longleftrightarrow> (\<exists>g. graphicsCapable device g))
   \<and> (presentationFamily (findQueueFamilies device) \<noteq> None
        \<longleftrightarrow> (\<exists>p. presentationCapable device p))"
proof -
  have "findQueueFamilies device =
     \<lparr> graphicsFamily = lastBelow (graphicsCapable device) (Suc (scanStop device)),
       presentationFamily = lastBelow (presentationCapable device) (scanStop device) \<rparr>"
    using findQueueFamilies_fields [of device]
    by (cases "findQueueFamilies device") simp
  then show ?thesis
    using graphicsFamily_present_iff [of device] presentationFamily_present_iff [of device]
    by blast
qed

theorem findQueueFamilies_latest_scanned_witness:
  "findQueueFamilies (example_device [1, 1] (\<lambda>i. i = 0) [] [] [])
     = \<lparr> graphicsFamily = Some 1, presentationFamily = Some 0 \<rparr>
   \<and> scanStop (example_device [1, 1] (\<lambda>i. i = 0) [] [] []) = 1
   \<and> findQueueFamilies (example_device [0, 0, 1] (\<lambda>i. True) [] [] [])
     = \<lparr> graphicsFamily = Some 2, presentationFamily = Some 1 \<rparr>
   \<and> findQueueFamilies (example_device [1, 2, 4] (\<lambda>i. i = 0) [] [] [])
     = \<lparr> graphicsFamily = Some 0, presentationFamily = Some 0 \<rparr>
   \<and> findQueueFamilies (example_device [2, 4] (\<lambda>i. True) [] [] [])
     = \<lparr> graphicsFamily = None, presentationFamily = Some 1 \<rparr>"
  using findQueueFamilies_latest_scanned [of "example_device [1, 1] (\<lambda>i. i = 0) [] [] []"]
        findQueueFamilies_latest_scanned [of "example_device [0, 0, 1] (\<lambda>i. True) [] [] []"]
        findQueueFamilies_latest_scanned [of "example_device [1, 2, 4] (\<lambda>i. i = 0) [] [] []"]
        findQueueFamilies_latest_scanned [of "example_device [2, 4] (\<lambda>i. True) [] [] []"]
  by (simp add: family_eval)

subsection \<open>Device selection\<close>

text \<open>Unfolding the model on the example devices.\<close>

lemmas example_eval =
  selectPhysicalDevice_def isDeviceSuitable_def findQueueFamilies_def example_device_def
  Framework_def VK_QUEUE_GRAPHICS_BIT_def IsComplete_def checkDeviceExtensionSupport_def
  VK_KHR_SWAPCHAIN_EXTENSION_NAME_def querySwapChainSupport_def Let_def
  createSwapChain_createInfo_def createSwapChain_def createLogicalDevice_def
  value_opt_def chooseSwapSurfaceFormat_def preferredFormat_def

lemma checkDeviceExtensionSupport_loop_eq:
  "checkDeviceExtensionSupport_loop es req = req - extensionName ` set es"
  by (induction es arbitrary: req) auto

lemma checkDeviceExtensionSupport_iff:
  "checkDeviceExtensionSupport this d \<longleftrightarrow> extensionsSupported this d"
  by (auto simp: checkDeviceExtensionSupport_def extensionsSupported_def
        checkDeviceExtensionSupport_loop_eq Let_def)

lemma isDeviceSuitable_iff: "isDeviceSuitable this d \<longleftrightarrow> threeChecks this d"
  by (auto simp: isDeviceSuitable_def threeChecks_def swapchainAdequate_def
        checkDeviceExtensionSupport_iff querySwapChainSupport_def Let_def)

lemma selectPhysicalDevice_loop_find:
  "selectPhysicalDevice_loop this ds None = find (threeChecks this) ds"
  by (induction ds) (auto simp: isDeviceSuitable_iff)

lemma selectPhysicalDevice_find:
  "selectPhysicalDevice this ds =
     (if ds = [] then Inl NoAcceleratorFound
      else case find (threeChecks this) ds of
             None \<Rightarrow> Inl NoSuitableAccelerator | Some d \<Rightarrow> Inr d)"
  by (simp add: selectPhysicalDevice_def selectPhysicalDevice_loop_find)

text \<open>
  Claim C1. \<open>selectPhysicalDevice\<close> fails with \<open>NoAcceleratorFound\<close> on the empty list; on a
  non-empty list none of whose devices passes the three checks it fails with
  \<open>NoSuitableAccelerator\<close>; and it selects the device at index \<open>k\<close> whenever that device passes the
  three checks and no device before it does.
\<close>

theorem selectPhysicalDevice_first_fit:
  "(devices = [] \<longrightarrow> selectPhysicalDevice this devices = Inl NoAcceleratorFound)
   \<and> (devices \<noteq> [] \<and> (\<forall>d \<in> set devices. \<not> threeChecks this d) \<longrightarrow>
        selectPhysicalDevice this devices = Inl NoSuitableAccelerator)
   \<and> (\<forall>k < length devices.
        threeChecks this (devices ! k) \<and> (\<forall>j < k. \<not> threeChecks this (devices ! j)) \<longrightarrow>
        selectPhysicalDevice this devices = Inr (devices ! k))"
proof (intro conjI impI allI)
  assume "devices = []"
  then show "selectPhysicalDevice this devices = Inl NoAcceleratorFound"
    by (simp add: selectPhysicalDevice_find)
next
  assume a: "devices \<noteq> [] \<and> (\<forall>d \<in> set devices. \<not> threeChecks this d)"
  then have "find (threeChecks this) devices = None"
    by (simp add: find_None_iff)
  with a show "selectPhysicalDevice this devices = Inl NoSuitableAccelerator"
    by (simp add: selectPhysicalDevice_find)
next
  fix k
  assume k: "k < length devices"
    and h: "threeChecks this (devices ! k) \<and> (\<forall>j < k. \<not> threeChecks this (devices ! j))"
  then have "find (threeChecks this) devices = Some (devices ! k)"
    by (auto simp: find_Some_iff)
  moreover from k have "devices \<noteq> []" by auto
  ultimately show "selectPhysicalDevice this devices = Inr (devices ! k)"
    by (simp add: selectPhysicalDevice_find)
qed


theorem selectPhysicalDevice_first_fit_witness:
  "selectPhysicalDevice (Framework False) [] = Inl NoAcceleratorFound
   \<and> selectPhysicalDevice (Framework False)
       [example_device [2] (\<lambda>i. True) [''VK_KHR_swapchain''] [preferredFormat] [VK_PRESENT_MODE_FIFO_KHR],
        example_device [1] (\<lambda>i. True) [''VK_KHR_maintenance1''] [preferredFormat] [VK_PRESENT_MODE_FIFO_KHR],
        example_device [1] (\<lambda>i. True) [''VK_KHR_swapchain''] [] [VK_PRESENT_MODE_FIFO_KHR]]
     = Inl NoSuitableAccelerator
   \<and> selectPhysicalDevice (Framework False)
       [example_device [2] (\<lambda>i. True) [''VK_KHR_swapchain''] [preferredFormat] [VK_PRESENT_MODE_FIFO_KHR],
        example_device [1] (\<lambda>i. True) [''VK_KHR_swapchain''] [] [VK_PRESENT_MODE_FIFO_KHR],
        example_device [1] (\<lambda>i. i = 0) [''VK_KHR_swapchain''] [preferredFormat] [VK_PRESENT_MODE_FIFO_KHR],
        example_device [3, 1] (\<lambda>i. True) [''VK_KHR_swapchain''] [preferredFormat] [VK_PRESENT_MODE_MAILBOX_KHR]]
     = Inr (example_device [1] (\<lambda>i. i = 0) [''VK_KHR_swapchain''] [preferredFormat] [VK_PRESENT_MODE_FIFO_KHR])"
  using selectPhysicalDevice_first_fit [of "[]" "Framework False"]
    selectPhysicalDevice_first_fit [of
      "[example_device [2] (\<lambda>i. True) [''VK_KHR_swapchain''] [preferredFormat] [VK_PRESENT_MODE_FIFO_KHR],
        example_device [1] (\<lambda>i. True) [''VK_KHR_maintenance1''] [preferredFormat] [VK_PRESENT_MODE_FIFO_KHR],
        example_device [1] (\<lambda>i. True) [''VK_KHR_swapchain''] [] [VK_PRESENT_MODE_FIFO_KHR]]" "Framework False"]
    selectPhysicalDevice_first_fit [of
       "[example_device [2] (\<lambda>i. True) [''VK_KHR_swapchain''] [preferredFormat] [VK_PRESENT_MODE_FIFO_KHR],
        example_device [1] (\<lambda>i. True) [''VK_KHR_swapchain''] [] [VK_PRESENT_MODE_FIFO_KHR],
        example_device [1] (\<lambda>i. i = 0) [''VK_KHR_swapchain''] [preferredFormat] [VK_PRESENT_MODE_FIFO_KHR],
        example_device [3, 1] (\<lambda>i. True) [''VK_KHR_swapchain''] [preferredFormat] [VK_PRESENT_MODE_MAILBOX_KHR]]"
       "Framework False"]
  by (simp add: example_eval)

subsection \<open>Unwrapping the family indices after selection\<close>

lemma selectPhysicalDevice_Inr_threeChecks:
  assumes "selectPhysicalDevice this devices = Inr d"
  shows "d \<in> set devices \<and> threeChecks this d"
proof -
  from assms have "find (threeChecks this) devices = Some d"
    by (auto simp: selectPhysicalDevice_find split: if_splits option.splits)
  then show ?thesis
    by (auto simp: find_Some_iff)
qed

lemma chooseSwapSurfaceFormat_nonempty:
  "fs \<noteq> [] \<Longrightarrow> \<exists>sf. chooseSwapSurfaceFormat fs = Inr sf"
  by (cases fs) (auto simp: chooseSwapSurfaceFormat_def split: option.split)

text \<open>
  Claim C10. When \<open>selectPhysicalDevice\<close> has succeeded, \<open>findQueueFamilies\<close> on the selected
  device yields both indices, so neither \<open>createLogicalDevice\<close> nor \<open>createSwapChain\<close> fails in
  \<open>value()\<close>, whatever the driver answers; when the driver reports success both return their
  request.
\<close>

theorem unwrap_after_selection_never_fails:
  assumes "selectPhysicalDevice this devices = Inr physicalDevice"
  shows "(\<exists>g p. graphicsFamily (findQueueFamilies physicalDevice) = Some g
            \<and> presentationFamily (findQueueFamilies physicalDevice) = Some p)
     \<and> createLogicalDevice this physicalDevice vkCreateDevice \<noteq> Inl BadOptionalAccess
     \<and> createSwapChain this physicalDevice vkCreateSwapchainKHR \<noteq> Inl BadOptionalAccess
     \<and> (\<exists>createInfo. createLogicalDevice this physicalDevice VK_SUCCESS = Inr createInfo)
     \<and> (\<exists>createInfo. createSwapChain this physicalDevice VK_SUCCESS = Inr createInfo)"
proof -
  from assms have tc: "threeChecks this physicalDevice"
    by (simp add: selectPhysicalDevice_Inr_threeChecks)
  then obtain g p where g: "graphicsFamily (findQueueFamilies physicalDevice) = Some g"
      and p: "presentationFamily (findQueueFamilies physicalDevice) = Some p"
    by (auto simp: threeChecks_def IsComplete_def)
  from tc have "surfaceFormats (querySwapChainSupport physicalDevice) \<noteq> []"
    by (simp add: threeChecks_def swapchainAdequate_def querySwapChainSupport_def)
  then obtain sf where
    sf: "chooseSwapSurfaceFormat (surfaceFormats (querySwapChainSupport physicalDevice)) = Inr sf"
    using chooseSwapSurfaceFormat_nonempty by blast
  have ld: "createLogicalDevice this physicalDevice r \<noteq> Inl BadOptionalAccess" for r
    using g p by (simp add: createLogicalDevice_def value_opt_def Let_def)
  have sc: "createSwapChain this physicalDevice r \<noteq> Inl BadOptionalAccess" for r
    using g p sf by (simp add: createSwapChain_def createSwapChain_createInfo_def value_opt_def Let_def)
  have ld_ok: "\<exists>createInfo. createLogicalDevice this physicalDevice VK_SUCCESS = Inr createInfo"
    using g p by (simp add: createLogicalDevice_def value_opt_def Let_def)
  have sc_ok: "\<exists>createInfo. createSwapChain this physicalDevice VK_SUCCESS = Inr createInfo"
    using g p sf by (simp add: createSwapChain_def createSwapChain_createInfo_def value_opt_def Let_def)
  from g p ld sc ld_ok sc_ok show ?thesis by blast
qed

theorem unwrap_after_selection_never_fails_witness:
  "selectPhysicalDevice (Framework False)
     [example_device [1, 0] (\<lambda>i. i = 1) [''VK_KHR_swapchain''] [preferredFormat] [VK_PRESENT_MODE_FIFO_KHR]]
    = Inr (example_device [1, 0] (\<lambda>i. i = 1) [''VK_KHR_swapchain''] [preferredFormat] [VK_PRESENT_MODE_FIFO_KHR])
   \<and> graphicsFamily (findQueueFamilies
        (example_device [1, 0] (\<lambda>i. i = 1) [''VK_KHR_swapchain''] [preferredFormat] [VK_PRESENT_MODE_FIFO_KHR])) = Some 0
   \<and> presentationFamily (findQueueFamilies
        (example_device [1, 0] (\<lambda>i. i = 1) [''VK_KHR_swapchain''] [preferredFormat] [VK_PRESENT_MODE_FIFO_KHR])) = Some 1
   \<and> createLogicalDevice (Framework False)
        (example_device [1, 0] (\<lambda>i. i = 1) [''VK_KHR_swapchain''] [preferredFormat] [VK_PRESENT_MODE_FIFO_KHR])
        VK_SUCCESS \<noteq> Inl BadOptionalAccess
   \<and> createSwapChain (Framework False)
        (example_device [1, 0] (\<lambda>i. i = 1) [''VK_KHR_swapchain''] [preferredFormat] [VK_PRESENT_MODE_FIFO_KHR])
        VK_SUCCESS \<noteq> Inl BadOptionalAccess"
  using unwrap_after_selection_never_fails [of "Framework False"
     "[example_device [1, 0] (\<lambda>i. i = 1) [''VK_KHR_swapchain''] [preferredFormat] [VK_PRESENT_MODE_FIFO_KHR]]"
     "example_device [1, 0] (\<lambda>i. i = 1) [''VK_KHR_swapchain''] [preferredFormat] [VK_PRESENT_MODE_FIFO_KHR]"
     VK_SUCCESS VK_SUCCESS]
  by (simp add: example_eval)

subsection \<open>Sharing mode\<close>

text \<open>
  Claim C8. In the request built by \<open>createSwapChain\<close> from the recorded family indices \<open>g\<close>
  (graphics) and \<open>p\<close> (presentation): if they differ, the sharing mode is concurrent, the index
  count is 2 and the index array holds exactly \<open>g\<close> and \<open>p\<close>; if they are equal, the sharing mode
  is exclusive, the index count is 0 and the index array is the null pointer.
\<close>

theorem sharing_mode_by_families:
  assumes "createSwapChain_createInfo this physicalDevice = Inr createInfo"
    and "graphicsFamily (findQueueFamilies physicalDevice) = Some g"
    and "presentationFamily (findQueueFamilies physicalDevice) = Some p"
  shows "(g \<noteq> p \<longrightarrow>
            imageSharingMode createInfo = VK_SHARING_MODE_CONCURRENT
            \<and> queueFamilyIndexCount createInfo = 2
            \<and> pQueueFamilyIndices createInfo = Some [g, p])
       \<and> (g = p \<longrightarrow>
            imageSharingMode createInfo = VK_SHARING_MODE_EXCLUSIVE
            \<and> queueFamilyIndexCount createInfo = 0
            \<and> pQueueFamilyIndices createInfo = None)"
  using assms
  by (auto simp: createSwapChain_createInfo_def value_opt_def Let_def split: sum.splits)

theorem sharing_mode_by_families_witness:
  "(case createSwapChain_createInfo (Framework False)
          (example_device [1, 0] (\<lambda>i. i = 1) [''VK_KHR_swapchain''] [preferredFormat] [VK_PRESENT_MODE_FIFO_KHR]) of
      Inl e \<Rightarrow> False
    | Inr createInfo \<Rightarrow>
        imageSharingMode createInfo = VK_SHARING_MODE_CONCURRENT
        \<and> queueFamilyIndexCount createInfo = 2
        \<and> pQueueFamilyIndices createInfo = Some [0, 1])
   \<and> (case createSwapChain_createInfo (Framework False)
          (example_device [1, 0] (\<lambda>i. i = 0) [''VK_KHR_swapchain''] [preferredFormat] [VK_PRESENT_MODE_FIFO_KHR]) of
      Inl e \<Rightarrow> False
    | Inr createInfo \<Rightarrow>
        imageSharingMode createInfo = VK_SHARING_MODE_EXCLUSIVE
        \<and> queueFamilyIndexCount createInfo = 0
        \<and> pQueueFamilyIndices createInfo = None)"
  using sharing_mode_by_families [of "Framework False"
      "example_device [1, 0] (\<lambda>i. i = 1) [''VK_KHR_swapchain''] [preferredFormat] [VK_PRESENT_MODE_FIFO_KHR]" _ 0 1]
    sharing_mode_by_families [of "Framework False"
      "example_device [1, 0] (\<lambda>i. i = 0) [''VK_KHR_swapchain''] [preferredFormat] [VK_PRESENT_MODE_FIFO_KHR]" _ 0 0]
  by (simp add: example_eval)

subsection \<open>Creation and teardown order\<close>

lemma stages_append:
  "xs = [] \<or> ys = [] \<or> stage_of (last xs) \<noteq> stage_of (hd ys) \<Longrightarrow>
   stages (xs @ ys) = stages xs @ stages ys"
  by (auto simp: stages_def last_map hd_map intro!: remdups_adj_append')

lemma stages_ImageViews:
  "stages (map ImageView [0..<n]) = (if n = 0 then [] else [ImageViewsStage])"
proof -
  have "map stage_of (map ImageView [0..<n]) = replicate n ImageViewsStage"
    by (simp add: map_replicate_const o_def)
  then show ?thesis
    by (simp add: stages_def remdups_adj_replicate)
qed

lemma stage_of_last_ImageViews:
  "xs \<noteq> [] \<Longrightarrow> stage_of (last (map ImageView xs)) = ImageViewsStage"
  by (simp add: last_map)

lemma stage_of_hd_ImageViews:
  "xs \<noteq> [] \<Longrightarrow> stage_of (hd (map ImageView xs)) = ImageViewsStage"
  by (simp add: hd_map)

lemma stages_cleanup:
  "stages (cleanup_destroyed this func_found n) =
     (if n = 0 then [] else [ImageViewsStage])
     @ [SwapchainStage, LogicalDeviceStage]
     @ (if enableValidationLayers this \<and> func_found then [DiagnosticsStage] else [])
     @ [SurfaceStage, InstanceStage, WindowStage]"
proof -
  let ?rest = "[SwapChain] @ [LogicalDevice]
     @ (if enableValidationLayers this
        then destroyDebugUtilsMessengerEXT_destroyed func_found else [])
     @ [Surface] @ [Instance] @ [Window] @ [GlfwLibrary]"
  have "stages (map ImageView [0..<n] @ ?rest) = stages (map ImageView [0..<n]) @ stages ?rest"
    by (rule stages_append) (cases "n = 0"; simp add: stage_of_last_ImageViews)
  moreover have "stages ?rest = [SwapchainStage, LogicalDeviceStage]
     @ (if enableValidationLayers this \<and> func_found then [DiagnosticsStage] else [])
     @ [SurfaceStage, InstanceStage, WindowStage]"
    by (simp add: stages_def destroyDebugUtilsMessengerEXT_destroyed_def)
  ultimately show ?thesis
    by (simp add: cleanup_destroyed_def stages_ImageViews)
qed

lemma stages_run_created:
  "stages (run_created this n) =
     [WindowStage, InstanceStage]
     @ (if enableValidationLayers this then [DiagnosticsStage] else [])
     @ [SurfaceStage, LogicalDeviceStage, SwapchainStage]
     @ (if n = 0 then [] else [ImageViewsStage])"
proof -
  let ?front = "[GlfwLibrary, Window, Instance]
     @ (if enableValidationLayers this then [DebugMessenger] else [])
     @ [Surface, LogicalDevice, SwapChain]"
  have "stages (?front @ map ImageView [0..<n]) = stages ?front @ stages (map ImageView [0..<n])"
    by (rule stages_append) (cases "n = 0"; simp add: stage_of_hd_ImageViews)
  moreover have "stages ?front = [WindowStage, InstanceStage]
     @ (if enableValidationLayers this then [DiagnosticsStage] else [])
     @ [SurfaceStage, LogicalDeviceStage, SwapchainStage]"
    by (simp add: stages_def)
  moreover have "run_created this n = ?front @ map ImageView [0..<n]"
    by (simp add: run_created_def initVulkan_created_def initWindow_created_def
          createInstance_created_def createDebugMessenger_created_def createSurface_created_def
          selectPhysicalDevice_created_def createLogicalDevice_created_def
          createSwapChain_created_def createImageViews_created_def)
  ultimately show ?thesis
    by (simp add: stages_ImageViews)
qed

lemma parents_alive_append:
  "parents_alive acc (xs @ ys) \<longleftrightarrow> parents_alive acc xs \<and> parents_alive (rev xs @ acc) ys"
  by (induction xs arbitrary: acc) auto

lemma parents_alive_ImageViews:
  "LogicalDevice \<notin> set acc \<Longrightarrow> SwapChain \<notin> set acc \<Longrightarrow>
   parents_alive acc (map ImageView xs)"
  by (induction xs arbitrary: acc) auto

lemma parents_alive_cleanup: "parents_alive [] (cleanup_destroyed this func_found n)"
  by (auto simp: cleanup_destroyed_def destroyDebugUtilsMessengerEXT_destroyed_def
        parents_alive_append parents_alive_ImageViews)

lemmas created_defs =
  run_created_def initVulkan_created_def initWindow_created_def
  createInstance_created_def createDebugMessenger_created_def createSurface_created_def
  selectPhysicalDevice_created_def createLogicalDevice_created_def
  createSwapChain_created_def createImageViews_created_def

lemma set_cleanup:
  "set (cleanup_destroyed this func_found n) =
     (if enableValidationLayers this \<and> \<not> func_found
      then set (run_created this n) - {DebugMessenger}
      else set (run_created this n))"
  by (auto simp: created_defs cleanup_destroyed_def destroyDebugUtilsMessengerEXT_destroyed_def)

lemma DebugMessenger_created:
  "DebugMessenger \<in> set (run_created this n) \<longleftrightarrow> enableValidationLayers this"
  by (auto simp: created_defs)

lemma distinct_cleanup: "distinct (cleanup_destroyed this func_found n)"
  by (auto simp: cleanup_destroyed_def destroyDebugUtilsMessengerEXT_destroyed_def
        distinct_map inj_on_def)

lemma DebugMessenger_cleanup:
  "DebugMessenger \<in> set (cleanup_destroyed this func_found n)
     \<longleftrightarrow> enableValidationLayers this \<and> func_found"
  by (auto simp: cleanup_destroyed_def destroyDebugUtilsMessengerEXT_destroyed_def)

text \<open>
  Claim C3, as stated, fails when validation layers are enabled. The debug messenger is created
  before the surface (lines 93-94). When the destroying entry point is found, the messenger is
  also destroyed before the surface (lines 117-120); when it is not found, the messenger is not
  destroyed at all (lines 226-227). Either way the stages of \<open>cleanup\<close> are not the reverse of
  the stages of creation.
\<close>

theorem cleanup_not_reverse_counterexample:
  "stages (cleanup_destroyed (Framework False) True 2)
     \<noteq> rev (stages (run_created (Framework False) 2))
   \<and> stages (cleanup_destroyed (Framework False) False 2)
     \<noteq> rev (stages (run_created (Framework False) 2))"
  by (simp add: stages_cleanup stages_run_created Framework_def)

text \<open>
  Claim C3, amended. With validation layers disabled, the stages of \<open>cleanup\<close> are the exact
  reverse of the stages of creation, and \<open>cleanup\<close> destroys exactly the resources created. With
  validation layers enabled and the destroying entry point \<open>vkDestroyDebugUtilsMessengerEXT\<close>
  found, they are that reverse with the diagnostics stage and the surface stage exchanged, and
  \<open>cleanup\<close> again destroys exactly the resources created. With validation layers enabled and
  the entry point not found, the diagnostics stage is missing from the teardown: every resource
  created but the debug messenger is destroyed. In all cases \<open>cleanup\<close> destroys only resources
  that were created, each at most once, the debug messenger exactly when validation is enabled
  and the entry point is found, and no resource after a handle it was created from.
\<close>

theorem cleanup_order:
  "(\<not> enableValidationLayers this \<longrightarrow>
      stages (cleanup_destroyed this func_found n) = rev (stages (run_created this n))
      \<and> set (cleanup_destroyed this func_found n) = set (run_created this n))
   \<and> (enableValidationLayers this \<longrightarrow>
      stages (run_created this n) =
        [WindowStage, InstanceStage, DiagnosticsStage, SurfaceStage, LogicalDeviceStage,
         SwapchainStage] @ (if n = 0 then [] else [ImageViewsStage])
      \<and> (func_found \<longrightarrow>
           stages (cleanup_destroyed this func_found n) =
             (if n = 0 then [] else [ImageViewsStage])
             @ [SwapchainStage, LogicalDeviceStage, DiagnosticsStage, SurfaceStage,
                InstanceStage, WindowStage]
           \<and> set (cleanup_destroyed this func_found n) = set (run_created this n))
      \<and> (\<not> func_found \<longrightarrow>
           stages (cleanup_destroyed this func_found n) =
             (if n = 0 then [] else [ImageViewsStage])
             @ [SwapchainStage, LogicalDeviceStage, SurfaceStage, InstanceStage, WindowStage]
           \<and> set (cleanup_destroyed this func_found n)
               = set (run_created this n) - {DebugMessenger}
           \<and> DebugMessenger \<in> set (run_created this n)))
   \<and> set (cleanup_destroyed this func_found n) \<subseteq> set (run_created this n)
   \<and> distinct (cleanup_destroyed this func_found n)
   \<and> (DebugMessenger \<in> set (cleanup_destroyed this func_found n)
        \<longleftrightarrow> enableValidationLayers this \<and> func_found)
   \<and> parents_alive [] (cleanup_destroyed this func_found n)"
proof -
  have disabled: "\<not> enableValidationLayers this \<longrightarrow>
      stages (cleanup_destroyed this func_found n) = rev (stages (run_created this n))
      \<and> set (cleanup_destroyed this func_found n) = set (run_created this n)"
    by (simp add: stages_cleanup stages_run_created set_cleanup)
  have enabled: "enableValidationLayers this \<longrightarrow>
      stages (run_created this n) =
        [WindowStage, InstanceStage, DiagnosticsStage, SurfaceStage, LogicalDeviceStage,
         SwapchainStage] @ (if n = 0 then [] else [ImageViewsStage])
      \<and> (func_found \<longrightarrow>
           stages (cleanup_destroyed this func_found n) =
             (if n = 0 then [] else [ImageViewsStage])
             @ [SwapchainStage, LogicalDeviceStage, DiagnosticsStage, SurfaceStage,
                InstanceStage, WindowStage]
           \<and> set (cleanup_destroyed this func_found n) = set (run_created this n))
      \<and> (\<not> func_found \<longrightarrow>
           stages (cleanup_destroyed this func_found n) =
             (if n = 0 then [] else [ImageViewsStage])
             @ [SwapchainStage, LogicalDeviceStage, SurfaceStage, InstanceStage, WindowStage]
           \<and> set (cleanup_destroyed this func_found n)
               = set (run_created this n) - {DebugMessenger}
           \<and> DebugMessenger \<in> set (run_created this n))"
    by (simp add: stages_cleanup stages_run_created set_cleanup DebugMessenger_created)
  have sub: "set (cleanup_destroyed this func_found n) \<subseteq> set (run_created this n)"
    by (auto simp: set_cleanup)
  from disabled enabled sub distinct_cleanup [of this func_found n]
    DebugMessenger_cleanup [of this func_found n] parents_alive_cleanup [of this func_found n]
  show ?thesis by blast
qed

theorem cleanup_order_witness:
  "stages (cleanup_destroyed (Framework True) True 3)
     = rev (stages (run_created (Framework True) 3))
   \<and> stages (cleanup_destroyed (Framework True) False 3)
     = rev (stages (run_created (Framework True) 3))
   \<and> stages (run_created (Framework False) 3) =
       [WindowStage, InstanceStage, DiagnosticsStage, SurfaceStage, LogicalDeviceStage,
        SwapchainStage, ImageViewsStage]
   \<and> stages (cleanup_destroyed (Framework False) True 3) =
       [ImageViewsStage, SwapchainStage, LogicalDeviceStage, DiagnosticsStage, SurfaceStage,
        InstanceStage, WindowStage]
   \<and> stages (cleanup_destroyed (Framework False) False 3) =
       [ImageViewsStage, SwapchainStage, LogicalDeviceStage, SurfaceStage, InstanceStage,
        WindowStage]
   \<and> DebugMessenger \<notin> set (cleanup_destroyed (Framework False) False 3)
   \<and> parents_alive [] (cleanup_destroyed (Framework False) True 3)
   \<and> parents_alive [] (cleanup_destroyed (Framework False) False 3)"
  using cleanup_order [of "Framework True" True 3] cleanup_order [of "Framework True" False 3]
        cleanup_order [of "Framework False" True 3] cleanup_order [of "Framework False" False 3]
  by (simp add: Framework_def)

end
